theory Spec2Isabelle
  imports Complex_Main "HOL-Library.Sublist"
begin

section \<open>Values shared by the pipeline\<close>

text \<open>
  The analyzer of \<^verbatim>\<open>src/data_analyzer.py\<close> is a thin driver over pandas, numpy,
  scikit-learn, keras and requests. Each method is embedded as a HOL function that follows
  the method line by line. What a library call returns is either written out from the
  library's documented behaviour (row filtering, the sizes of the split, the arithmetic of
  IEEE special values) or, where the result depends on data outside the program (the
  file system, the network, the pseudo-random generator), taken as a parameter of the
  model. The rounding of floating-point arithmetic is a parameter as well, so that a
  property can be stated for every rounding, for exact arithmetic or for binary64.
\<close>

subsection \<open>Exceptions\<close>

text \<open>
  A Python exception is a value. \<open>RequestException\<close> stands for
  \<^verbatim>\<open>requests.RequestException\<close> and all its subclasses (connection errors, timeouts,
  invalid URLs), \<open>ValueError\<close> for the built-in raised by scikit-learn, and
  \<open>OtherException\<close> for every exception class that is neither.
\<close>

datatype exn =
    RequestException string
  | ValueError string
  | OtherException string

subsection \<open>Floating-point values\<close>

text \<open>
  A binary64 value is a finite real, an infinity or NaN. The rounding of a finite result
  (overflow to an infinity included) is the parameter \<open>rnd\<close> of every arithmetic
  operation: \<open>exact\<close> is arithmetic without rounding. The special values follow IEEE 754.
  The model has a single zero; the divisors that occur below are square roots of sums of
  squares, which are never the negative zero.
\<close>

datatype fl = Fin real | PInf | NInf | NaN

type_synonym rounding = "real \<Rightarrow> fl"

definition exact :: rounding where
  "exact x = Fin x"

fun fneg :: "fl \<Rightarrow> fl" where
  "fneg (Fin x) = Fin (- x)"
| "fneg PInf = NInf"
| "fneg NInf = PInf"
| "fneg NaN = NaN"

fun fadd :: "rounding \<Rightarrow> fl \<Rightarrow> fl \<Rightarrow> fl" where
  "fadd rnd NaN _ = NaN"
| "fadd rnd _ NaN = NaN"
| "fadd rnd PInf NInf = NaN"
| "fadd rnd NInf PInf = NaN"
| "fadd rnd PInf _ = PInf"
| "fadd rnd _ PInf = PInf"
| "fadd rnd NInf _ = NInf"
| "fadd rnd _ NInf = NInf"
| "fadd rnd (Fin x) (Fin y) = rnd (x + y)"

definition fsub :: "rounding \<Rightarrow> fl \<Rightarrow> fl \<Rightarrow> fl" where
  "fsub rnd a b = fadd rnd a (fneg b)"

fun fsign :: "fl \<Rightarrow> int" where
  "fsign (Fin x) = (if x < 0 then - 1 else if x = 0 then 0 else 1)"
| "fsign PInf = 1"
| "fsign NInf = - 1"
| "fsign NaN = 0"

definition signed_inf :: "int \<Rightarrow> fl" where
  "signed_inf s = (if s < 0 then NInf else PInf)"

fun fmul :: "rounding \<Rightarrow> fl \<Rightarrow> fl \<Rightarrow> fl" where
  "fmul rnd NaN _ = NaN"
| "fmul rnd _ NaN = NaN"
| "fmul rnd (Fin x) (Fin y) = rnd (x * y)"
| "fmul rnd a b =
     (if fsign a = 0 \<or> fsign b = 0 then NaN else signed_inf (fsign a * fsign b))"

fun fdiv :: "rounding \<Rightarrow> fl \<Rightarrow> fl \<Rightarrow> fl" where
  "fdiv rnd NaN _ = NaN"
| "fdiv rnd _ NaN = NaN"
| "fdiv rnd (Fin x) (Fin y) =
     (if y = 0 then (if x = 0 then NaN else signed_inf (fsign (Fin x)))
      else rnd (x / y))"
| "fdiv rnd (Fin x) PInf = Fin 0"
| "fdiv rnd (Fin x) NInf = Fin 0"
| "fdiv rnd a (Fin y) = signed_inf (fsign a * (if y < 0 then - 1 else 1))"
| "fdiv rnd a b = NaN"

fun fsqrt :: "rounding \<Rightarrow> fl \<Rightarrow> fl" where
  "fsqrt rnd (Fin x) = (if x < 0 then NaN else rnd (sqrt x))"
| "fsqrt rnd PInf = PInf"
| "fsqrt rnd NInf = NaN"
| "fsqrt rnd NaN = NaN"

text \<open>
  The rounding of binary64 itself, round to nearest with ties to the even significand: a
  non-zero real in the binade of exponent \<open>e\<close> (not below the exponent \<open>-1022\<close> of the
  subnormal numbers) is rounded to a multiple of \<open>2 ^ (e - 52)\<close>, and a rounded magnitude
  of \<open>2 ^ 1024\<close> or more is an infinity.
\<close>

definition round_half_even :: "real \<Rightarrow> int" where
  "round_half_even y =
     (let f = \<lfloor>y\<rfloor>; d = y - of_int f
      in if d < 1 / 2 then f else if d > 1 / 2 then f + 1 else if even f then f else f + 1)"



subsection \<open>Decoded JSON\<close>

text \<open>
  The value \<^verbatim>\<open>json.load\<close> and \<^verbatim>\<open>response.json()\<close> return. Python's \<^verbatim>\<open>None\<close> is
  \<open>JNull\<close>, a dict is the list of its items in insertion order.
\<close>

datatype json =
    JNull
  | JBool bool
  | JNum fl
  | JStr string
  | JArr "json list"
  | JObj "(string \<times> json) list"

section \<open>External Fetcher\<close>

text \<open>
  \<^verbatim>\<open>requests.get(api_url, timeout=30)\<close> either raises or returns a response; a response
  carries its status code and what its \<^verbatim>\<open>json()\<close> method does (return the decoded body, or
  raise). The network is the parameter \<open>get\<close>.
\<close>

record response =
  status_code :: int
  json_body :: "exn + json"

type_synonym network = "string \<Rightarrow> nat \<Rightarrow> exn + response"

text \<open>
  The handler \<^verbatim>\<open>except requests.RequestException as e\<close>: an exception of that class is
  printed and execution continues after the \<^verbatim>\<open>try\<close> statement, where the method returns
  \<^verbatim>\<open>None\<close>; any other exception leaves the method. The first component of the result is
  what was printed.
\<close>

definition except_RequestException :: "exn \<Rightarrow> string list \<times> (exn + json)" where
  "except_RequestException e =
     (case e of
        RequestException msg \<Rightarrow> ([''Error fetching data: '' @ msg], Inr JNull)
      | _ \<Rightarrow> ([], Inl e))"

definition fetch_external_data :: "network \<Rightarrow> string \<Rightarrow> string list \<times> (exn + json)" where
  "fetch_external_data get api_url =
     (case get api_url 30 of
        Inl e \<Rightarrow> except_RequestException e
      | Inr response \<Rightarrow>
          if status_code response = 200 then
            (case json_body response of
               Inl e \<Rightarrow> except_RequestException e
             | Inr payload \<Rightarrow> ([], Inr payload))
          else ([], Inr JNull))"

text \<open>
  Networks used to evaluate the fetcher: one answers 201 Created with a body, one answers
  200 with the same body, one answers 200 with a body that does not decode, one is
  unreachable.
\<close>

definition created_payload :: json where
  "created_payload = JObj [(''id'', JNum (Fin 7))]"

definition created_network :: network where
  "created_network url timeout = Inr \<lparr>status_code = 201, json_body = Inr created_payload\<rparr>"

definition ok_network :: network where
  "ok_network url timeout = Inr \<lparr>status_code = 200, json_body = Inr created_payload\<rparr>"

definition garbled_network :: network where
  "garbled_network url timeout =
     Inr \<lparr>status_code = 200, json_body = Inl (RequestException ''Expecting value'')\<rparr>"

definition unreachable_network :: network where
  "unreachable_network url timeout = Inl (RequestException ''connection refused'')"

section \<open>Tables\<close>

text \<open>
  A pandas \<^verbatim>\<open>DataFrame\<close>: the column labels in order, the dtype of each column as far as
  \<^verbatim>\<open>select_dtypes(include=[np.number])\<close> tells them apart, and the rows in order, each row
  holding one cell per column. A cell is a number or any other Python object. pandas
  treats NaN and \<^verbatim>\<open>None\<close> as missing (\<^verbatim>\<open>isna\<close>); infinities and empty strings are not
  missing.
\<close>

datatype cell = Num fl | Obj json

fun isna :: "cell \<Rightarrow> bool" where
  "isna (Num NaN) = True"
| "isna (Obj JNull) = True"
| "isna _ = False"


datatype dtype = Numeric | NonNumeric

record table =
  columns :: "string list"
  dtypes :: "dtype list"
  rows :: "cell list list"

record analyzer =
  data_source :: string
  processed_data :: "table option"

definition DataAnalyzer :: "string \<Rightarrow> analyzer" where
  "DataAnalyzer source = \<lparr>data_source = source, processed_data = None\<rparr>"

section \<open>Data Loader\<close>










section \<open>Cleaner\<close>

text \<open>
  \<^verbatim>\<open>DataFrame.dropna()\<close> with its defaults (\<^verbatim>\<open>axis=0\<close>, \<^verbatim>\<open>how='any'\<close>) walks the rows and
  keeps a row when none of its cells is missing; labels and dtypes stay.
\<close>

fun has_missing :: "cell list \<Rightarrow> bool" where
  "has_missing [] = False"
| "has_missing (c # cs) = (isna c \<or> has_missing cs)"

fun dropna_rows :: "cell list list \<Rightarrow> cell list list" where
  "dropna_rows [] = []"
| "dropna_rows (r # rs) = (if has_missing r then dropna_rows rs else r # dropna_rows rs)"

definition dropna :: "table \<Rightarrow> table" where
  "dropna t = t\<lparr>rows := dropna_rows (rows t)\<rparr>"

text \<open>
  The statistics of a column. \<^verbatim>\<open>mean()\<close> is the sum over the count. \<^verbatim>\<open>std()\<close> has
  \<^verbatim>\<open>ddof=1\<close>: with at most one value it is NaN, otherwise the square root of the sum of
  the squared deviations from the mean over the count less one. The sum adds the values
  from left to right, as numpy does for a short column (long columns are summed pairwise).
\<close>

definition fsum :: "rounding \<Rightarrow> fl list \<Rightarrow> fl" where
  "fsum rnd xs = foldl (fadd rnd) (Fin 0) xs"

definition mean :: "rounding \<Rightarrow> fl list \<Rightarrow> fl" where
  "mean rnd xs = fdiv rnd (fsum rnd xs) (Fin (real (length xs)))"

definition squared_deviation :: "rounding \<Rightarrow> fl \<Rightarrow> fl \<Rightarrow> fl" where
  "squared_deviation rnd avg v = fmul rnd (fsub rnd avg v) (fsub rnd avg v)"

definition std :: "rounding \<Rightarrow> fl list \<Rightarrow> fl" where
  "std rnd xs =
     (if length xs \<le> 1 then NaN
      else fsqrt rnd
             (fdiv rnd (fsum rnd (map (squared_deviation rnd (mean rnd xs)) xs))
                (Fin (real (length xs - 1)))))"

text \<open>
  The values of column \<open>j\<close>. In a column of numeric dtype every cell is a number.
\<close>

fun the_num :: "cell \<Rightarrow> fl" where
  "the_num (Num x) = x"
| "the_num (Obj j) = NaN"

definition column_values :: "table \<Rightarrow> nat \<Rightarrow> fl list" where
  "column_values t j = map (\<lambda>r. the_num (r ! j)) (rows t)"

text \<open>
  \<^verbatim>\<open>df[numeric_cols] = (df[numeric_cols] - df[numeric_cols].mean()) / df[numeric_cols].std()\<close>:
  every cell of a numeric column is replaced, every other cell stays.
\<close>

definition normalize_cell :: "rounding \<Rightarrow> table \<Rightarrow> nat \<Rightarrow> cell \<Rightarrow> cell" where
  "normalize_cell rnd t j c =
     (if dtypes t ! j = Numeric then
        Num (fdiv rnd (fsub rnd (the_num c) (mean rnd (column_values t j)))
               (std rnd (column_values t j)))
      else c)"

definition normalize_table :: "rounding \<Rightarrow> table \<Rightarrow> table" where
  "normalize_table rnd t =
     t\<lparr>rows := map (\<lambda>r. map (\<lambda>(j, c). normalize_cell rnd t j c) (enumerate 0 r)) (rows t)\<rparr>"

definition clean_data :: "rounding \<Rightarrow> analyzer \<Rightarrow> analyzer" where
  "clean_data rnd self =
     (case processed_data self of
        None \<Rightarrow> self
      | Some t \<Rightarrow> self\<lparr>processed_data := Some (normalize_table rnd (dropna t))\<rparr>)"

section \<open>Feature/Target Splitter and Model Assembler\<close>

text \<open>
  \<^verbatim>\<open>iloc[:, :-1]\<close> keeps all columns but the last, \<^verbatim>\<open>iloc[:, -1]\<close> is the last column.
  Both are applied to a table with at least two columns only, whose rows are not empty.
\<close>

definition iloc_features :: "table \<Rightarrow> table" where
  "iloc_features t =
     \<lparr>columns = butlast (columns t), dtypes = butlast (dtypes t), rows = map butlast (rows t)\<rparr>"

definition iloc_target :: "table \<Rightarrow> cell list" where
  "iloc_target t = map last (rows t)"

text \<open>
  scikit-learn's \<^verbatim>\<open>train_test_split\<close> with a fractional \<^verbatim>\<open>test_size\<close>, no \<^verbatim>\<open>train_size\<close> and
  an integer \<^verbatim>\<open>random_state\<close>. The fraction must lie strictly between 0 and 1. The
  evaluation subset has \<open>ceil(test_size * n)\<close> rows and the training subset the rest; an
  empty training subset is refused with a \<^verbatim>\<open>ValueError\<close>. A generator seeded with
  \<^verbatim>\<open>random_state\<close> permutes the positions \<open>0..<n\<close>: the first \<open>n_test\<close> positions of the
  permutation are the evaluation rows, the following \<open>n_train\<close> the training rows. The
  generator is the parameter \<open>shuffle\<close>, from the seed and \<open>n\<close> to the permutation; the
  positions of a permutation are within the table, so that \<open>take_rows\<close> reads inside it.
  The messages of the exceptions are shortened. The evaluation fraction is a real number:
  for the literal \<^verbatim>\<open>0.2\<close> and a row count below \<open>2 ^ 50\<close> the product rounded in
  binary64 has the same ceiling as the exact product.
\<close>

type_synonym generator = "nat \<Rightarrow> nat \<Rightarrow> nat list"

definition validate_shuffle_split :: "nat \<Rightarrow> real \<Rightarrow> exn + (nat \<times> nat)" where
  "validate_shuffle_split n_samples test_size =
     (if test_size \<le> 0 \<or> test_size \<ge> 1 then
        Inl (ValueError ''test_size should be a float in the (0, 1) range'')
      else
        let n_test = nat \<lceil>test_size * real n_samples\<rceil>;
            n_train = n_samples - n_test
        in if n_train = 0 then Inl (ValueError ''the resulting train set will be empty'')
           else Inr (n_train, n_test))"

definition split_indices :: "generator \<Rightarrow> nat \<Rightarrow> real \<Rightarrow> nat \<Rightarrow> exn + (nat list \<times> nat list)" where
  "split_indices shuffle n_samples test_size random_state =
     (case validate_shuffle_split n_samples test_size of
        Inl e \<Rightarrow> Inl e
      | Inr (n_train, n_test) \<Rightarrow>
          let permutation = shuffle random_state n_samples;
              ind_test = take n_test permutation;
              ind_train = take n_train (drop n_test permutation)
          in Inr (ind_train, ind_test))"

definition take_rows :: "'a list \<Rightarrow> nat list \<Rightarrow> 'a list" where
  "take_rows xs indices = map (\<lambda>i. xs ! i) indices"

definition train_test_split ::
  "generator \<Rightarrow> table \<Rightarrow> cell list \<Rightarrow> real \<Rightarrow> nat \<Rightarrow>
     exn + (table \<times> table \<times> cell list \<times> cell list)" where
  "train_test_split shuffle X y test_size random_state =
     (case split_indices shuffle (length (rows X)) test_size random_state of
        Inl e \<Rightarrow> Inl e
      | Inr (train, test) \<Rightarrow>
          Inr (X\<lparr>rows := take_rows (rows X) train\<rparr>, X\<lparr>rows := take_rows (rows X) test\<rparr>,
               take_rows y train, take_rows y test))"

text \<open>
  A keras model as the data it is built from: the layers in order, and after
  \<^verbatim>\<open>compile\<close> the optimizer, the loss and the metrics.
\<close>

record layer =
  units :: nat
  activation :: string
  input_shape :: "nat list option"

record model =
  layers :: "layer list"
  optimizer :: "string option"
  loss :: "string option"
  metrics :: "string list"

definition Dense :: "nat \<Rightarrow> string \<Rightarrow> nat list option \<Rightarrow> layer" where
  "Dense n act shape = \<lparr>units = n, activation = act, input_shape = shape\<rparr>"

definition Sequential :: "layer list \<Rightarrow> model" where
  "Sequential ls = \<lparr>layers = ls, optimizer = None, loss = None, metrics = []\<rparr>"

definition compile :: "model \<Rightarrow> string \<Rightarrow> string \<Rightarrow> string list \<Rightarrow> model" where
  "compile m opt l ms = m\<lparr>optimizer := Some opt, loss := Some l, metrics := ms\<rparr>"

text \<open>
  \<^verbatim>\<open>build_ml_model\<close>: the result is the returned model, \<^verbatim>\<open>None\<close> when the guard fails (the
  method falls off its end), or the exception of the split.
\<close>

definition build_ml_model :: "generator \<Rightarrow> analyzer \<Rightarrow> exn + model option" where
  "build_ml_model shuffle self =
     (case processed_data self of
        None \<Rightarrow> Inr None
      | Some t \<Rightarrow>
          if length (columns t) > 1 then
            (let X = iloc_features t;
                 y = iloc_target t
             in case train_test_split shuffle X y 0.2 42 of
                  Inl e \<Rightarrow> Inl e
                | Inr (X_train, X_test, y_train, y_test) \<Rightarrow>
                    Inr (Some (compile
                      (Sequential
                         [Dense 64 ''relu'' (Some [length (columns X_train)]),
                          Dense 32 ''relu'' None,
                          Dense 1 ''sigmoid'' None])
                      ''adam'' ''binary_crossentropy'' [''accuracy''])))
          else Inr None)"

section \<open>Inputs used to evaluate the model\<close>

text \<open>
  A generator that returns the positions in descending order (one permutation among those
  a seeded generator can return), and small tables.
\<close>

definition reversing_generator :: generator where
  "reversing_generator seed n = rev [0..<n]"

definition single_row_table :: table where
  "single_row_table =
     \<lparr>columns = [''x'', ''label''], dtypes = [Numeric, Numeric],
      rows = [[Num (Fin 1), Num (Fin 0)]]\<rparr>"

definition numbered_table :: "nat \<Rightarrow> table" where
  "numbered_table n =
     \<lparr>columns = [''x'', ''label''], dtypes = [Numeric, Numeric],
      rows = map (\<lambda>i. [Num (Fin (real i)), Num (Fin 0)]) [0..<n]\<rparr>"

definition single_column_table :: table where
  "single_column_table =
     \<lparr>columns = [''label''], dtypes = [Numeric], rows = [[Num (Fin 0)], [Num (Fin 1)]]\<rparr>"

definition gappy_table :: table where
  "gappy_table =
     \<lparr>columns = [''x'', ''name''], dtypes = [Numeric, NonNumeric],
      rows = [[Num (Fin 1), Obj (JStr ''a'')],
              [Num NaN, Obj (JStr ''b'')],
              [Num (Fin 3), Obj JNull],
              [Num (Fin 4), Obj (JStr ''d'')]]\<rparr>"



definition sparse_table :: table where
  "sparse_table =
     \<lparr>columns = [''x'', ''name''], dtypes = [Numeric, NonNumeric],
      rows = [[Num (Fin 5), Obj (JStr ''a'')],
              [Num NaN, Obj (JStr ''b'')]]\<rparr>"




section \<open>Properties of the External Fetcher\<close>

lemma except_RequestException_caught:
  "except_RequestException (RequestException msg) = ([''Error fetching data: '' @ msg], Inr JNull)"
  by (simp add: except_RequestException_def)

text \<open>
  C2, as stated: every success status (2xx) yields the decoded payload. It fails on the
  code: the network answers 201 Created with a body that decodes to a non-null payload, and
  the method returns \<^verbatim>\<open>None\<close>, because it compares the status with 200 only.
\<close>

theorem fetch_2xx_counterexample:
  "created_network ''http://host/items'' 30
     = Inr \<lparr>status_code = 201, json_body = Inr created_payload\<rparr> \<and>
   (200::int) \<le> 201 \<and> (201::int) < 300 \<and>
   created_payload \<noteq> JNull \<and>
   fetch_external_data created_network ''http://host/items'' = ([], Inr JNull)"
  by (simp add: fetch_external_data_def created_network_def created_payload_def)

text \<open>
  C2, amended: for every URL and every network, the fetcher returns the decoded payload
  when the status code is exactly 200 and the body decodes; every other status code
  (every non-2xx one among them) yields \<^verbatim>\<open>None\<close> with nothing printed; an exception of
  class \<^verbatim>\<open>RequestException\<close>, raised by the request or by the decoding, is printed and
  yields \<^verbatim>\<open>None\<close>. In none of these cases does an exception leave the method.
\<close>

theorem fetch_external_data_status_200:
  "(get api_url 30 = Inr r \<longrightarrow> status_code r = 200 \<longrightarrow> json_body r = Inr payload \<longrightarrow>
      fetch_external_data get api_url = ([], Inr payload)) \<and>
   (get api_url 30 = Inr r \<longrightarrow> status_code r \<noteq> 200 \<longrightarrow>
      fetch_external_data get api_url = ([], Inr JNull)) \<and>
   (get api_url 30 = Inl (RequestException msg) \<longrightarrow>
      fetch_external_data get api_url = ([''Error fetching data: '' @ msg], Inr JNull)) \<and>
   (get api_url 30 = Inr r \<longrightarrow> status_code r = 200 \<longrightarrow>
      json_body r = Inl (RequestException msg) \<longrightarrow>
      fetch_external_data get api_url = ([''Error fetching data: '' @ msg], Inr JNull))"
  by (simp add: fetch_external_data_def except_RequestException_caught)

theorem fetch_external_data_status_200_witness:
  "fetch_external_data ok_network ''http://host/items'' = ([], Inr created_payload) \<and>
   fetch_external_data created_network ''http://host/items'' = ([], Inr JNull) \<and>
   fetch_external_data unreachable_network ''http://host/items''
     = ([''Error fetching data: connection refused''], Inr JNull) \<and>
   fetch_external_data garbled_network ''http://host/items''
     = ([''Error fetching data: Expecting value''], Inr JNull)"
  using
    fetch_external_data_status_200
      [of ok_network "''http://host/items''"
          "\<lparr>status_code = 200, json_body = Inr created_payload\<rparr>" created_payload]
    fetch_external_data_status_200
      [of created_network "''http://host/items''"
          "\<lparr>status_code = 201, json_body = Inr created_payload\<rparr>"]
    fetch_external_data_status_200
      [of unreachable_network "''http://host/items''" _ _ "''connection refused''"]
    fetch_external_data_status_200
      [of garbled_network "''http://host/items''"
          "\<lparr>status_code = 200, json_body = Inl (RequestException ''Expecting value'')\<rparr>"
          _ "''Expecting value''"]
  by (simp add: ok_network_def created_network_def unreachable_network_def
      garbled_network_def)


section \<open>Properties of the Splitter and the Model Assembler\<close>

lemma n_test_fifth: "nat \<lceil>0.2 * real n\<rceil> = (n + 4) div 5"
proof -
  have "\<lceil>0.2 * real n\<rceil> = \<lceil>real_of_int (int n) / real_of_int 5\<rceil>" by simp
  also have "\<dots> = - (- int n div 5)" by (rule ceiling_divide_eq_div)
  finally have "\<lceil>0.2 * real n\<rceil> = - (- int n div 5)" .
  moreover have "- (- int n div 5) = int ((n + 4) div 5)" by (simp add: zdiv_int)
  ultimately show ?thesis by simp
qed

lemma validate_shuffle_split_fifth:
  "validate_shuffle_split n (1 / 5) =
     (if n < 2 then Inl (ValueError ''the resulting train set will be empty'')
      else Inr (n - (n + 4) div 5, (n + 4) div 5))"
proof -
  have "validate_shuffle_split n 0.2 =
     (if n < 2 then Inl (ValueError ''the resulting train set will be empty'')
      else Inr (n - (n + 4) div 5, (n + 4) div 5))"
    unfolding validate_shuffle_split_def n_test_fifth
    by (auto simp: Let_def)
  then show ?thesis by simp
qed

lemma rows_iloc_features: "length (rows (iloc_features t)) = length (rows t)"
  by (simp add: iloc_features_def)

lemma columns_iloc_features: "length (columns (iloc_features t)) = length (columns t) - 1"
  by (simp add: iloc_features_def)







text \<open>
  C3, amended: for every table with at least two columns and at least two rows,
  \<^verbatim>\<open>build_ml_model\<close> returns a model whose first layer has 64 units, rectified-linear
  activation and an input width equal to the column count minus one, whose second layer
  has 32 units and rectified-linear activation, whose last layer has 1 unit and sigmoid
  activation, with optimizer Adam, loss binary cross-entropy and metric accuracy.
\<close>

theorem build_ml_model_spec:
  assumes "processed_data self = Some t"
    and "2 \<le> length (columns t)"
    and "2 \<le> length (rows t)"
  shows "build_ml_model shuffle self =
           Inr (Some \<lparr>layers =
                  [\<lparr>units = 64, activation = ''relu'',
                    input_shape = Some [length (columns t) - 1]\<rparr>,
                   \<lparr>units = 32, activation = ''relu'', input_shape = None\<rparr>,
                   \<lparr>units = 1, activation = ''sigmoid'', input_shape = None\<rparr>],
                optimizer = Some ''adam'', loss = Some ''binary_crossentropy'',
                metrics = [''accuracy'']\<rparr>)"
  using assms
  by (simp add: build_ml_model_def train_test_split_def split_indices_def
      validate_shuffle_split_fifth rows_iloc_features Let_def iloc_features_def
      compile_def Sequential_def Dense_def)

text \<open>The model built from a table of five rows and two columns.\<close>

theorem build_ml_model_spec_witness:
  "build_ml_model reversing_generator
       \<lparr>data_source = ''sample_data.csv'', processed_data = Some (numbered_table 5)\<rparr>
     = Inr (Some \<lparr>layers =
              [\<lparr>units = 64, activation = ''relu'', input_shape = Some [1]\<rparr>,
               \<lparr>units = 32, activation = ''relu'', input_shape = None\<rparr>,
               \<lparr>units = 1, activation = ''sigmoid'', input_shape = None\<rparr>],
            optimizer = Some ''adam'', loss = Some ''binary_crossentropy'',
            metrics = [''accuracy'']\<rparr>)"
  using build_ml_model_spec
    [of "\<lparr>data_source = ''sample_data.csv'', processed_data = Some (numbered_table 5)\<rparr>"
        "numbered_table 5" reversing_generator]
  by (simp add: numbered_table_def)

text \<open>
  C3, as stated for every table with at least two columns: it fails on a table of two
  columns and one row, where the split raises before any model is assembled.
\<close>

theorem build_ml_model_single_row_counterexample:
  "length (columns single_row_table) = 2 \<and>
   build_ml_model reversing_generator
       \<lparr>data_source = ''sample_data.csv'', processed_data = Some single_row_table\<rparr>
     = Inl (ValueError ''the resulting train set will be empty'')"
  by (simp add: build_ml_model_def single_row_table_def train_test_split_def
      split_indices_def validate_shuffle_split_fifth iloc_features_def Let_def)

text \<open>
  C8: when the analyzer holds no table, or a table with fewer than two columns,
  \<^verbatim>\<open>build_ml_model\<close> performs no split, builds no model and returns \<^verbatim>\<open>None\<close>.
\<close>

theorem build_ml_model_none:
  assumes "processed_data self = None \<or>
           (\<exists>t. processed_data self = Some t \<and> length (columns t) < 2)"
  shows "build_ml_model shuffle self = Inr None"
  using assms by (auto simp: build_ml_model_def)

text \<open>A fresh analyzer, and an analyzer holding a table of one column.\<close>

theorem build_ml_model_none_witness:
  "build_ml_model reversing_generator (DataAnalyzer ''notes.txt'') = Inr None \<and>
   build_ml_model reversing_generator
       \<lparr>data_source = ''sample_data.csv'', processed_data = Some single_column_table\<rparr>
     = Inr None"
  using
    build_ml_model_none [of "DataAnalyzer ''notes.txt''" reversing_generator]
    build_ml_model_none
      [of "\<lparr>data_source = ''sample_data.csv'', processed_data = Some single_column_table\<rparr>"
          reversing_generator]
  by (simp add: DataAnalyzer_def single_column_table_def)


section \<open>Properties of the Data Loader\<close>












section \<open>Properties of the Cleaner\<close>

lemma dropna_rows_filter: "dropna_rows rs = filter (\<lambda>r. \<not> has_missing r) rs"
  by (induction rs) simp_all

lemma has_missing_iff: "has_missing r \<longleftrightarrow> (\<exists>c\<in>set r. isna c)"
  by (induction r) auto

lemma subseq_dropna_rows: "subseq (dropna_rows rs) rs"
  by (simp add: dropna_rows_filter)

lemma dropna_rows_id: "(\<forall>r\<in>set rs. \<not> has_missing r) \<Longrightarrow> dropna_rows rs = rs"
  by (simp add: dropna_rows_filter)

lemma length_rows_normalize: "length (rows (normalize_table rnd t)) = length (rows t)"
  by (simp add: normalize_table_def)

text \<open>
  C4: the row filter of the Cleaner keeps exactly the rows without a missing value, in
  their order in the table (the kept rows are the table's rows filtered by "no cell is
  missing", a subsequence of them), and leaves the labels and dtypes alone; on a table
  with no missing value it returns the table unchanged. The table \<^verbatim>\<open>clean_data\<close> stores is
  the normalization of the filtered table and has as many rows as the table has rows
  without a missing value.
\<close>

theorem dropna_exact:
  "rows (dropna t) = filter (\<lambda>r. \<not> (\<exists>c\<in>set r. isna c)) (rows t) \<and>
   subseq (rows (dropna t)) (rows t) \<and>
   columns (dropna t) = columns t \<and> dtypes (dropna t) = dtypes t \<and>
   ((\<forall>r\<in>set (rows t). \<forall>c\<in>set r. \<not> isna c) \<longrightarrow> dropna t = t) \<and>
   processed_data (clean_data rnd (self\<lparr>processed_data := Some t\<rparr>))
     = Some (normalize_table rnd (dropna t)) \<and>
   length (rows (normalize_table rnd (dropna t)))
     = length (filter (\<lambda>r. \<not> (\<exists>c\<in>set r. isna c)) (rows t))"
proof -
  have f: "rows (dropna t) = filter (\<lambda>r. \<not> (\<exists>c\<in>set r. isna c)) (rows t)"
    by (simp add: dropna_def dropna_rows_filter has_missing_iff)
  have s: "subseq (rows (dropna t)) (rows t)"
    by (simp add: dropna_def subseq_dropna_rows)
  have c: "columns (dropna t) = columns t" "dtypes (dropna t) = dtypes t"
    by (simp_all add: dropna_def)
  have n: "(\<forall>r\<in>set (rows t). \<forall>c\<in>set r. \<not> isna c) \<longrightarrow> dropna t = t"
    by (simp add: dropna_def dropna_rows_id has_missing_iff)
  have cl: "processed_data (clean_data rnd (self\<lparr>processed_data := Some t\<rparr>))
              = Some (normalize_table rnd (dropna t))"
    by (simp add: clean_data_def)
  have l: "length (rows (normalize_table rnd (dropna t)))
             = length (filter (\<lambda>r. \<not> (\<exists>c\<in>set r. isna c)) (rows t))"
    by (simp add: length_rows_normalize f)
  from f s c n cl l show ?thesis by (intro conjI)
qed

text \<open>A table with two incomplete rows out of four, and a table without missing values.\<close>

theorem dropna_exact_witness:
  "rows (dropna gappy_table)
     = [[Num (Fin 1), Obj (JStr ''a'')], [Num (Fin 4), Obj (JStr ''d'')]] \<and>
   length (rows (normalize_table exact (dropna gappy_table))) = 2 \<and>
   dropna single_row_table = single_row_table"
  using dropna_exact [of gappy_table exact] dropna_exact [of single_row_table]
  by (simp add: gappy_table_def single_row_table_def)

lemma fdiv_NaN_right: "fdiv rnd a NaN = NaN"
  by (cases a) simp_all

lemma std_single: "std rnd [x] = NaN"
  by (simp add: std_def)

lemma clean_data_Some:
  "processed_data self = Some t \<Longrightarrow>
     processed_data (clean_data rnd self) = Some (normalize_table rnd (dropna t))"
  by (simp add: clean_data_def)

lemma dtypes_dropna: "dtypes (dropna t) = dtypes t"
  by (simp add: dropna_def)

lemma normalize_row_nth:
  "j < length r \<Longrightarrow>
     map (\<lambda>(j, c). normalize_cell rnd u j c) (enumerate 0 r) ! j = normalize_cell rnd u j (r ! j)"
  by (simp add: nth_enumerate_eq)

text \<open>
  C10: the standard deviation divides by the count less one (\<^verbatim>\<open>ddof=1\<close>). For every table
  that has exactly one row after the row filter, and for every rounding, the standard
  deviation of each numeric column is NaN and \<^verbatim>\<open>clean_data\<close> stores a table whose single
  row holds NaN in every numeric column; the cells of the other columns are unchanged.
\<close>

theorem single_row_all_nan:
  assumes "processed_data self = Some t"
    and "rows (dropna t) = [r]"
  shows "\<exists>r'. processed_data (clean_data rnd self) = Some ((dropna t)\<lparr>rows := [r']\<rparr>) \<and>
              length r' = length r \<and>
              (\<forall>j<length r.
                 (dtypes t ! j = Numeric \<longrightarrow>
                    std rnd (column_values (dropna t) j) = NaN \<and> r' ! j = Num NaN) \<and>
                 (dtypes t ! j \<noteq> Numeric \<longrightarrow> r' ! j = r ! j))"
proof -
  define u where "u = dropna t"
  define r' where "r' = map (\<lambda>(j, c). normalize_cell rnd u j c) (enumerate 0 r)"
  have ru: "rows u = [r]"
    using assms(2) by (simp add: u_def)
  have "normalize_table rnd u = u\<lparr>rows := [r']\<rparr>"
    by (simp add: normalize_table_def ru r'_def)
  then have result: "processed_data (clean_data rnd self) = Some (u\<lparr>rows := [r']\<rparr>)"
    using clean_data_Some [OF assms(1), of rnd] by (simp add: u_def)
  have len: "length r' = length r"
    by (simp add: r'_def)
  have cells: "(dtypes t ! j = Numeric \<longrightarrow>
                  std rnd (column_values u j) = NaN \<and> r' ! j = Num NaN) \<and>
               (dtypes t ! j \<noteq> Numeric \<longrightarrow> r' ! j = r ! j)" if "j < length r" for j
  proof -
    have nth: "r' ! j = normalize_cell rnd u j (r ! j)"
      unfolding r'_def using that by (rule normalize_row_nth)
    have sd: "std rnd (column_values u j) = NaN"
      by (simp add: column_values_def ru std_single)
    show ?thesis
      using nth sd
      by (simp add: normalize_cell_def u_def dtypes_dropna fdiv_NaN_right)
  qed
  show ?thesis
    using result len cells unfolding u_def by (intro exI [of _ r'] conjI allI impI) simp_all
qed

text \<open>A table of two rows, one of them incomplete.\<close>

theorem single_row_all_nan_witness:
  "rows (dropna sparse_table) = [[Num (Fin 5), Obj (JStr ''a'')]] \<and>
   processed_data (clean_data exact \<lparr>data_source = ''d.csv'', processed_data = Some sparse_table\<rparr>)
     = Some (sparse_table\<lparr>rows := [[Num NaN, Obj (JStr ''a'')]]\<rparr>)"
proof -
  have h1: "processed_data \<lparr>data_source = ''d.csv'', processed_data = Some sparse_table\<rparr>
              = Some sparse_table"
    by simp
  have h2: "rows (dropna sparse_table) = [[Num (Fin 5), Obj (JStr ''a'')]]"
    by (simp add: dropna_def sparse_table_def)
  obtain r' where
    r': "processed_data
           (clean_data exact \<lparr>data_source = ''d.csv'', processed_data = Some sparse_table\<rparr>)
           = Some ((dropna sparse_table)\<lparr>rows := [r']\<rparr>)"
      "length r' = length [Num (Fin 5), Obj (JStr ''a'')]"
      "\<forall>j<length [Num (Fin 5), Obj (JStr ''a'')].
         (dtypes sparse_table ! j = Numeric \<longrightarrow>
            std exact (column_values (dropna sparse_table) j) = NaN \<and> r' ! j = Num NaN) \<and>
         (dtypes sparse_table ! j \<noteq> Numeric \<longrightarrow> r' ! j = [Num (Fin 5), Obj (JStr ''a'')] ! j)"
    using single_row_all_nan [OF h1 h2, of exact] by blast
  have "r' ! 0 = Num NaN" "r' ! 1 = Obj (JStr ''a'')"
    using r'(3) by (simp_all add: sparse_table_def)
  moreover have "length r' = 2"
    using r'(2) by simp
  ultimately have "r' = [Num NaN, Obj (JStr ''a'')]"
    by (cases r'; cases "tl r'"; cases "tl (tl r')") simp_all
  then show ?thesis
    using r'(1) h2 by (simp add: dropna_def sparse_table_def)
qed


subsection \<open>Constant columns\<close>












subsection \<open>Rounding to binary64\<close>


lemma round_half_even_of_int: "round_half_even (of_int k) = k"
  by (simp add: round_half_even_def)

































end
